theory Spec2Isabelle
  imports Complex_Main "HOL-Library.Multiset" "HOL-Library.Sublist"
begin

section \<open>JavaScript strings\<close>

text \<open>
  A JavaScript string is modelled as a \<^typ>\<open>string\<close>: each \<^typ>\<open>char\<close> stands for one code
  unit, so the model covers the strings whose code units are below 256. \<open>null\<close> and
  \<open>undefined\<close> are \<open>None\<close> of an option type; the empty string is the only falsy string.
\<close>

definition is_ws :: "char \<Rightarrow> bool" where
  \<comment> \<open>the white space and line terminators that \<open>String.prototype.trim\<close> removes
      (tab, LF, VT, FF, CR, space, no-break space)\<close>
  "is_ws c = (of_char c \<in> {9, 10, 11, 12, 13, 32, 160 :: nat})"

definition trim :: "string \<Rightarrow> string" where
  "trim s = rev (dropWhile is_ws (rev (dropWhile is_ws s)))"

definition idchar :: "char \<Rightarrow> bool" where
  \<comment> \<open>the character class \<open>[a-zA-Z0-9_-]\<close>\<close>
  "idchar c = (let n = (of_char c :: nat) in
     (97 \<le> n \<and> n \<le> 122) \<or> (65 \<le> n \<and> n \<le> 90) \<or> (48 \<le> n \<and> n \<le> 57) \<or> n = 95 \<or> n = 45)"

fun indexOf :: "string \<Rightarrow> string \<Rightarrow> nat option" where
  "indexOf [] sep = (if sep = [] then Some 0 else None)"
| "indexOf (c # cs) sep =
     (if prefix sep (c # cs) then Some 0 else map_option Suc (indexOf cs sep))"

definition includes_str :: "string \<Rightarrow> string \<Rightarrow> bool" where
  "includes_str s sub = (indexOf s sub \<noteq> None)"

definition startsWith :: "string \<Rightarrow> string \<Rightarrow> bool" where
  "startsWith s p = prefix p s"

text \<open>
  \<open>s.split(sep)\<close> for a non-empty separator, by fuel: every step of the loop consumes at
  least one character, so \<open>length s + 1\<close> steps are enough.
\<close>

fun split_fuel :: "nat \<Rightarrow> string \<Rightarrow> string \<Rightarrow> string list" where
  "split_fuel 0 sep s = [s]"
| "split_fuel (Suc n) sep s =
     (case indexOf s sep of
        None \<Rightarrow> [s]
      | Some i \<Rightarrow> take i s # split_fuel n sep (drop (i + length sep) s))"

definition split :: "string \<Rightarrow> string \<Rightarrow> string list" where
  "split s sep = split_fuel (Suc (length s)) sep s"

definition at_index :: "'a list \<Rightarrow> nat \<Rightarrow> 'a option" where
  \<comment> \<open>\<open>xs[i]\<close>: \<open>undefined\<close> out of range\<close>
  "at_index xs i = (if i < length xs then Some (xs ! i) else None)"

fun match_id :: "string \<Rightarrow> string option" where
  \<comment> \<open>\<open>s.match(/[a-zA-Z0-9_-]{11}/)\<close>: the leftmost run of eleven id characters\<close>
  "match_id [] = None"
| "match_id (c # cs) =
     (if 11 \<le> length (c # cs) \<and> list_all idchar (take 11 (c # cs))
      then Some (take 11 (c # cs)) else match_id cs)"

section \<open>Extracting a video id (Room.jsx)\<close>

text \<open>
  The \<open>URL\<close> class belongs to the platform, not to the repository: the parser is a
  parameter of the model. It returns \<open>None\<close> where \<open>new URL(...)\<close> throws, and otherwise
  the three parts of the URL that \<open>extractVideoId\<close> reads.
\<close>

record url =
  hostname :: string
  pathname :: string
  searchParams_v :: "string option"

definition after_marker :: "string \<Rightarrow> string \<Rightarrow> string option" where
  \<comment> \<open>\<open>path.split(marker)[1]?.split('?')[0]\<close>\<close>
  "after_marker path marker =
     (case at_index (split path marker) 1 of
        None \<Rightarrow> None
      | Some rest \<Rightarrow> at_index (split rest ''?'') 0)"

definition not_a_url :: "string \<Rightarrow> url option" where
  \<comment> \<open>a parser for inputs on which \<open>new URL\<close> throws\<close>
  "not_a_url s = None"

definition youtu_be :: "url \<Rightarrow> string option" where
  \<comment> \<open>the last test of the \<open>try\<close> block, reached whenever no earlier branch returned\<close>
  "youtu_be u =
     (if hostname u = ''youtu.be'' then at_index (split (drop 1 (pathname u)) ''?'') 0 else None)"

definition extractVideoId :: "(string \<Rightarrow> url option) \<Rightarrow> string option \<Rightarrow> string option" where
  "extractVideoId parseURL input =
     (case input of
        None \<Rightarrow> None
      | Some inp \<Rightarrow>
          if inp = [] \<or> trim inp = [] then None
          else
            let trimmedInput = trim inp in
            if length trimmedInput = 11 \<and> list_all idchar trimmedInput then Some trimmedInput
            else
              (case parseURL trimmedInput of
                 None \<Rightarrow> match_id trimmedInput
               | Some u \<Rightarrow>
                   if includes_str (hostname u) ''youtube.com'' then
                     if pathname u = ''/watch'' then searchParams_v u
                     else if startsWith (pathname u) ''/embed/''
                     then after_marker (pathname u) ''/embed/''
                     else if startsWith (pathname u) ''/shorts/''
                     then after_marker (pathname u) ''/shorts/''
                     else youtu_be u
                   else youtu_be u))"

section \<open>Chat (firebase.js, useRoomSync.js)\<close>

record message_val =
  sender :: string
  msg_text :: string
  timestamp :: int

record chat_message = message_val +
  msg_id :: string

type_synonym child = "string \<times> message_val"

definition child_message :: "child \<Rightarrow> chat_message" where
  \<comment> \<open>\<open>{ id: childSnapshot.key, ...childSnapshot.val() }\<close>\<close>
  "child_message c =
     \<lparr>sender = sender (snd c), msg_text = msg_text (snd c), timestamp = timestamp (snd c),
      msg_id = fst c\<rparr>"

definition subscribeToMessages :: "child list \<Rightarrow> chat_message list" where
  \<comment> \<open>the list handed to the subscriber for a snapshot with the given children, in the
      order of the store; a snapshot without children does not exist.
      \<open>Array.prototype.sort\<close> is stable, as \<^const>\<open>sort_key\<close> is.\<close>
  "subscribeToMessages children =
     (if children \<noteq> [] then sort_key timestamp (map child_message children) else [])"

type_synonym store = "string \<Rightarrow> child list"

definition sendMessage :: "string \<Rightarrow> string \<Rightarrow> string \<Rightarrow> int \<Rightarrow> string \<Rightarrow> store \<Rightarrow> store" where
  \<comment> \<open>\<open>push\<close> on the message collection of the room: the store assigns the key, the
      clock gives \<open>Date.now()\<close>. No check of the text is made here.\<close>
  "sendMessage rid sndr txt now key st =
     st(rid := st rid @ [(key, \<lparr>sender = sndr, msg_text = txt, timestamp = now\<rparr>)])"

definition empty_store :: store where
  "empty_store rid = []"

section \<open>The room state and the player (useRoomSync.js, VideoPlayer.jsx)\<close>

text \<open>
  Numbers are JavaScript doubles in the source; positions are modelled as reals and
  time stamps (\<open>Date.now()\<close>, milliseconds) as integers, so \<open>NaN\<close> and rounding are
  outside the model.
\<close>

record video_state =
  videoId :: string
  isPlaying :: bool
  currentTime :: real

record room_data = video_state +
  lastUpdated :: int
  updatedBy :: string

record new_state =
  n_videoId :: "string option"
  n_isPlaying :: "bool option"
  n_currentTime :: "real option"

record player =
  getCurrentTime :: real
  getPlayerState :: int

datatype command = LoadVideoById string real | PauseVideo | PlayVideo | SeekTo real bool

datatype timer_action = ClearRemoteUpdate | PauseCaptured | PauseViaRef

datatype write_outcome = Fulfilled int | Rejected

text \<open>
  One client: the state and refs of the hook \<open>useRoomSync\<close>, the two refs of the
  \<open>VideoPlayer\<close> component that its state-change handler uses, and the observable effects:
  the commands sent to the player (\<open>issued\<close>), the pending \<open>setTimeout\<close> callbacks with
  their deadlines in milliseconds (\<open>timers\<close>), and the calls of \<open>updateVideoState\<close>
  (\<open>published\<close>: room, state, writer).
\<close>

record client =
  roomId :: string
  userName :: string
  roomState :: room_data
  isLoading :: bool
  isConnected :: bool
  error :: "string option"
  isRemoteUpdate :: bool
  lastProcessedUpdate :: int
  currentVideoIdRef :: string
  playerRef :: "player option"
  lastReportedTime :: real
  isSeeking :: bool
  issued :: "command list"
  timers :: "(nat \<times> timer_action) list"
  published :: "(string \<times> video_state \<times> string) list"
  clock :: nat

definition useRoomSync :: "string \<Rightarrow> string \<Rightarrow> player option \<Rightarrow> client" where
  \<comment> \<open>the client when the room view is mounted\<close>
  "useRoomSync rid name pl =
     \<lparr>roomId = rid, userName = name,
      roomState = \<lparr>videoId = [], isPlaying = False, currentTime = 0, lastUpdated = 0,
                   updatedBy = []\<rparr>,
      isLoading = True, isConnected = False, error = None,
      isRemoteUpdate = False, lastProcessedUpdate = 0, currentVideoIdRef = [],
      playerRef = pl, lastReportedTime = 0, isSeeking = False,
      issued = [], timers = [], published = [], clock = 0\<rparr>"

definition SEEK_THRESHOLD :: real where
  "SEEK_THRESHOLD = 2"

definition or_zero :: "real \<Rightarrow> real" where
  \<comment> \<open>\<open>x || 0\<close> on a number\<close>
  "or_zero x = (if x = 0 then 0 else x)"

definition nullish :: "'a option \<Rightarrow> 'a \<Rightarrow> 'a" where
  \<comment> \<open>\<open>a ?? b\<close>\<close>
  "nullish a b = (case a of None \<Rightarrow> b | Some v \<Rightarrow> v)"

definition merge_data :: "room_data \<Rightarrow> room_data \<Rightarrow> room_data" where
  \<comment> \<open>\<open>{ ...prev, ...data }\<close>\<close>
  "merge_data prev d =
     prev\<lparr>videoId := videoId d, isPlaying := isPlaying d, currentTime := currentTime d,
          lastUpdated := lastUpdated d, updatedBy := updatedBy d\<rparr>"

definition issue :: "command \<Rightarrow> client \<Rightarrow> client" where
  "issue c s = s\<lparr>issued := issued s @ [c]\<rparr>"

definition setTimeout :: "timer_action \<Rightarrow> nat \<Rightarrow> client \<Rightarrow> client" where
  "setTimeout a ms s = s\<lparr>timers := timers s @ [(clock s + ms, a)]\<rparr>"

subsection \<open>The subscription callback of the room\<close>

definition own_update :: "room_data \<Rightarrow> client \<Rightarrow> client" where
  "own_update d s =
     (let s1 = (if videoId d \<noteq> [] \<and> videoId d \<noteq> currentVideoIdRef s \<and> playerRef s \<noteq> None
                then let a = issue (LoadVideoById (videoId d) (or_zero (currentTime d)))
                               (s\<lparr>currentVideoIdRef := videoId d\<rparr>)
                     in if \<not> isPlaying d then setTimeout PauseViaRef 500 a else a
                else s);
          s2 = s1\<lparr>roomState := merge_data (roomState s1) d\<rparr>
      in s2\<lparr>lastProcessedUpdate := lastUpdated d\<rparr>)"

definition reconcile :: "player \<Rightarrow> room_data \<Rightarrow> client \<Rightarrow> client" where
  \<comment> \<open>the \<open>else\<close> branch of the remote update: same media\<close>
  "reconcile p d s =
     (let playerTime = or_zero (getCurrentTime p);
          timeDiff = \<bar>playerTime - currentTime d\<bar>;
          s1 = (if timeDiff > SEEK_THRESHOLD then issue (SeekTo (currentTime d) True) s else s);
          isPlayerPlaying = (getPlayerState p = 1)
      in if isPlaying d \<and> \<not> isPlayerPlaying then issue PlayVideo s1
         else if \<not> isPlaying d \<and> isPlayerPlaying then issue PauseVideo s1
         else s1)"

definition remote_update :: "room_data \<Rightarrow> client \<Rightarrow> client" where
  "remote_update d s =
     (let s1 = s\<lparr>isRemoteUpdate := True\<rparr>;
          s2 = s1\<lparr>roomState := merge_data (roomState s1) d\<rparr>;
          s3 = (case playerRef s2 of
                  None \<Rightarrow> s2
                | Some p \<Rightarrow>
                    if videoId d \<noteq> [] \<and> videoId d \<noteq> currentVideoIdRef s2
                    then let a = issue (LoadVideoById (videoId d) (or_zero (currentTime d)))
                                   (s2\<lparr>currentVideoIdRef := videoId d\<rparr>)
                         in if \<not> isPlaying d then setTimeout PauseCaptured 500 a else a
                    else reconcile p d s2);
          s4 = s3\<lparr>lastProcessedUpdate := lastUpdated d\<rparr>
      in setTimeout ClearRemoteUpdate 1000 s4)"

definition roomCallback :: "room_data \<Rightarrow> client \<Rightarrow> client" where
  \<comment> \<open>the function passed to \<open>subscribeToRoom\<close>\<close>
  "roomCallback d s =
     (let s1 = s\<lparr>isConnected := True, isLoading := False, error := None\<rparr>;
          s2 = (if currentVideoIdRef s1 = [] \<and> videoId d \<noteq> []
                then s1\<lparr>currentVideoIdRef := videoId d\<rparr> else s1)
      in if lastUpdated d \<le> lastProcessedUpdate s2 then s2
         else if updatedBy d = userName s2 then own_update d s2
         else remote_update d s2)"

subsection \<open>Timers\<close>

fun fire :: "timer_action \<Rightarrow> client \<Rightarrow> client" where
  "fire ClearRemoteUpdate s = s\<lparr>isRemoteUpdate := False\<rparr>"
| "fire PauseCaptured s = issue PauseVideo s"
| "fire PauseViaRef s = (if playerRef s \<noteq> None then issue PauseVideo s else s)"

definition due :: "nat \<Rightarrow> nat \<times> timer_action \<Rightarrow> bool" where
  "due t x = (fst x \<le> t)"

definition advance :: "nat \<Rightarrow> client \<Rightarrow> client" where
  \<comment> \<open>the clock reaches \<open>t\<close>: the callbacks whose deadline has passed run, earliest
      deadline first and in the order of their \<open>setTimeout\<close> calls among equal deadlines\<close>
  "advance t s =
     foldl (\<lambda>s' x. fire (snd x) s')
       (s\<lparr>timers := filter (\<lambda>x. \<not> due t x) (timers s), clock := max t (clock s)\<rparr>)
       (sort_key fst (filter (due t) (timers s)))"

subsection \<open>Outgoing updates\<close>

definition updateState_begin :: "room_data \<Rightarrow> new_state \<Rightarrow> client \<Rightarrow> client \<times> video_state option" where
  \<comment> \<open>\<open>updateState\<close> up to its \<open>await\<close>; \<open>rs\<close> is the \<open>roomState\<close> that the closure
      captured. The second component is the write that is awaited, if any.\<close>
  "updateState_begin rs n s =
     (if isRemoteUpdate s then (s, None)
      else if roomId s = [] \<or> userName s = [] then (s, None)
      else
        let updatedState =
              \<lparr>videoId = nullish (n_videoId n) (videoId rs),
               isPlaying = nullish (n_isPlaying n) (isPlaying rs),
               currentTime = nullish (n_currentTime n) (currentTime rs)\<rparr>
        in (s\<lparr>published := published s @ [(roomId s, updatedState, userName s)]\<rparr>,
            Some updatedState))"

definition updateState_resume :: "video_state \<Rightarrow> write_outcome \<Rightarrow> client \<Rightarrow> client" where
  \<comment> \<open>\<open>updateState\<close> after its \<open>await\<close>: the rest of the \<open>try\<close> block when the write
      is fulfilled, the \<open>catch\<close> block when it is rejected\<close>
  "updateState_resume u outcome s =
     (case outcome of
        Fulfilled now \<Rightarrow>
          s\<lparr>roomState := (roomState s)\<lparr>videoId := videoId u, isPlaying := isPlaying u,
               currentTime := currentTime u, lastUpdated := now, updatedBy := userName s\<rparr>\<rparr>
      | Rejected \<Rightarrow> s\<lparr>error := Some ''Failed to sync video state''\<rparr>)"

definition updateState :: "room_data \<Rightarrow> new_state \<Rightarrow> write_outcome \<Rightarrow> client \<Rightarrow> client" where
  \<comment> \<open>the whole call, for a given outcome of the write\<close>
  "updateState rs n outcome s =
     (case updateState_begin rs n s of
        (s1, None) \<Rightarrow> s1
      | (s1, Some u) \<Rightarrow> updateState_resume u outcome s1)"

definition sendPlay :: "room_data \<Rightarrow> real \<Rightarrow> write_outcome \<Rightarrow> client \<Rightarrow> client" where
  "sendPlay rs t =
     updateState rs \<lparr>n_videoId = None, n_isPlaying = Some True, n_currentTime = Some t\<rparr>"

definition sendPause :: "room_data \<Rightarrow> real \<Rightarrow> write_outcome \<Rightarrow> client \<Rightarrow> client" where
  "sendPause rs t =
     updateState rs \<lparr>n_videoId = None, n_isPlaying = Some False, n_currentTime = Some t\<rparr>"

definition sendSeek :: "room_data \<Rightarrow> real \<Rightarrow> bool \<Rightarrow> write_outcome \<Rightarrow> client \<Rightarrow> client" where
  "sendSeek rs t playing =
     updateState rs \<lparr>n_videoId = None, n_isPlaying = Some playing, n_currentTime = Some t\<rparr>"

definition loadVideo :: "room_data \<Rightarrow> string \<Rightarrow> write_outcome \<Rightarrow> client \<Rightarrow> client" where
  "loadVideo rs vid =
     updateState rs \<lparr>n_videoId = Some vid, n_isPlaying = Some True, n_currentTime = Some 0\<rparr>"

definition handleStateChange :: "room_data \<Rightarrow> int \<Rightarrow> real \<Rightarrow> write_outcome \<Rightarrow> client \<Rightarrow> client" where
  \<comment> \<open>the \<open>onStateChange\<close> handler of the player: \<open>st\<close> is \<open>event.data\<close>, \<open>t\<close> is
      \<open>event.target.getCurrentTime()\<close>; 1 is playing, 2 paused, 3 buffering\<close>
  "handleStateChange rs st t outcome s =
     (if isRemoteUpdate s then s
      else if st = 1 then
        let timeDiff = \<bar>t - lastReportedTime s\<bar>;
            s1 = (if timeDiff > 2 \<and> \<not> isSeeking s then sendSeek rs t True outcome s
                  else sendPlay rs t outcome s)
        in s1\<lparr>lastReportedTime := t, isSeeking := False\<rparr>
      else if st = 2 then
        let pauseTimeDiff = \<bar>t - lastReportedTime s\<bar>;
            s1 = (if pauseTimeDiff > 2 then sendSeek rs t False outcome (s\<lparr>isSeeking := True\<rparr>)
                  else sendPause rs t outcome s)
        in s1\<lparr>lastReportedTime := t\<rparr>
      else if st = 3 then
        let bufferTimeDiff = \<bar>t - lastReportedTime s\<bar>
        in if bufferTimeDiff > 2 then s\<lparr>isSeeking := True\<rparr> else s
      else s)"

definition sendChatMessage :: "string \<Rightarrow> bool \<Rightarrow> int \<Rightarrow> string \<Rightarrow> client \<times> store \<Rightarrow> client \<times> store" where
  \<comment> \<open>\<open>accepted\<close> tells whether the store takes the push, \<open>now\<close> and \<open>key\<close> are the
      clock and the key the store assigns\<close>
  "sendChatMessage txt accepted now key cs =
     (let s = fst cs; st = snd cs in
      if trim txt = [] \<or> roomId s = [] \<or> userName s = [] then (s, st)
      else if accepted then (s, sendMessage (roomId s) (userName s) (trim txt) now key st)
      else (s\<lparr>error := Some ''Failed to send message''\<rparr>, st))"

subsection \<open>Runs of one client\<close>

datatype event =
    RoomData room_data
  | Elapse nat
  | LocalReport room_data new_state write_outcome
  | PlayerEvent room_data int real write_outcome

fun step :: "event \<Rightarrow> client \<Rightarrow> client" where
  "step (RoomData d) s = roomCallback d s"
| "step (Elapse t) s = advance t s"
| "step (LocalReport rs n outcome) s = updateState rs n outcome s"
| "step (PlayerEvent rs st t outcome) s = handleStateChange rs st t outcome s"

definition run :: "event list \<Rightarrow> client \<Rightarrow> client" where
  "run evs s = fold step evs s"


definition new_commands :: "client \<Rightarrow> client \<Rightarrow> command list" where
  \<comment> \<open>the commands sent to the player between an earlier and a later state\<close>
  "new_commands s s' = drop (length (issued s)) (issued s')"



subsection \<open>Sample data\<close>

definition bob :: client where
  \<comment> \<open>Bob's client, just mounted, with a player that is playing at 41.995 seconds\<close>
  "bob = useRoomSync ''ROOM01'' ''Bob'' (Some \<lparr>getCurrentTime = 41.995, getPlayerState = 1\<rparr>)"

definition by_alice :: "string \<Rightarrow> bool \<Rightarrow> real \<Rightarrow> int \<Rightarrow> room_data" where
  \<comment> \<open>a room state written by Alice\<close>
  "by_alice vid playing t stamp =
     \<lparr>videoId = vid, isPlaying = playing, currentTime = t, lastUpdated = stamp,
      updatedBy = ''Alice''\<rparr>"

section \<open>Properties of the chat\<close>

lemma map_key_sort_key: "map f (sort_key f xs) = sort (map f xs)"
  by (rule properties_for_sort [symmetric]) simp_all

lemma sort_key_perm_keys:
  assumes "mset xs = mset ys"
  shows "map f (sort_key f xs) = map f (sort_key f ys)"
proof -
  have "mset (map f xs) = mset (map f ys)"
    using arg_cong [OF assms, of "image_mset f"] by simp
  then have "sort (map f xs) = sort (map f ys)"
    by (intro properties_for_sort) simp_all
  then show ?thesis
    by (simp add: map_key_sort_key)
qed

lemma filter_key_distinct:
  "distinct (map f xs) \<Longrightarrow> k \<in> set xs \<Longrightarrow> filter (\<lambda>x. f k = f x) xs = [k]"
proof (induction xs)
  case Nil
  then show ?case by simp
next
  case (Cons a xs)
  show ?case
  proof (cases "k = a")
    case True
    have "filter (\<lambda>x. f a = f x) xs = []"
      using Cons.prems(1) by (auto simp: filter_empty_conv)
    with True show ?thesis by simp
  next
    case False
    with Cons.prems have kx: "k \<in> set xs" by simp
    then have "f k \<in> f ` set xs" by simp
    moreover have "f a \<notin> f ` set xs" using Cons.prems(1) by simp
    ultimately have "f k \<noteq> f a" by metis
    with kx Cons show ?thesis by simp
  qed
qed

lemma sort_key_perm_distinct:
  assumes m: "mset xs = mset ys" and d: "distinct (map f xs)"
  shows "sort_key f xs = sort_key f ys"
proof (rule properties_for_sort_key [symmetric])
  show "mset (sort_key f xs) = mset ys" using m by simp
  show "sorted (map f (sort_key f xs))" by simp
  fix k assume "k \<in> set (sort_key f xs)"
  then have kx: "k \<in> set xs" by simp
  then have ky: "k \<in> set ys" using m by (simp flip: set_mset_mset)
  have "mset (map f xs) = mset (map f ys)"
    using arg_cong [OF m, of "image_mset f"] by simp
  then have "distinct (map f xs) \<longleftrightarrow> distinct (map f ys)"
    by (rule mset_eq_imp_distinct_iff)
  then have dy: "distinct (map f ys)"
    using d by blast
  have "filter (\<lambda>x. f k = f x) (sort_key f xs) = filter (\<lambda>x. f k = f x) xs"
    using sort_key_stable [of f "f k" xs] by (simp add: eq_commute)
  also have "\<dots> = [k]" using d kx by (rule filter_key_distinct)
  also have "\<dots> = filter (\<lambda>x. f k = f x) ys" using dy ky by (rule filter_key_distinct [symmetric])
  finally show "filter (\<lambda>x. f k = f x) (sort_key f xs) = filter (\<lambda>x. f k = f x) ys" .
qed

text \<open>
  Claim C7. Whatever the children of the message collection are, and in whatever order
  the store keeps them, the subscriber gets all of them, ordered by ascending time stamp.
  Two orders of the same children give the same sequence of time stamps, and the same list
  when the time stamps are distinct; of two messages, the one with the smaller time stamp
  (100 before 105) always comes first.
\<close>

theorem subscribeToMessages_sorted:
  "sorted (map timestamp (subscribeToMessages cs))
   \<and> mset (subscribeToMessages cs) = mset (map child_message cs)
   \<and> (mset cs' = mset cs \<longrightarrow>
        map timestamp (subscribeToMessages cs') = map timestamp (subscribeToMessages cs))
   \<and> (mset cs' = mset cs \<and> distinct (map (timestamp \<circ> snd) cs') \<longrightarrow>
        subscribeToMessages cs' = subscribeToMessages cs)
   \<and> (timestamp (snd a) < timestamp (snd b) \<longrightarrow>
        subscribeToMessages [a, b] = [child_message a, child_message b] \<and>
        subscribeToMessages [b, a] = [child_message a, child_message b])"
proof (intro conjI impI)
  show "sorted (map timestamp (subscribeToMessages cs))"
    by (simp add: subscribeToMessages_def)
  show "mset (subscribeToMessages cs) = mset (map child_message cs)"
    by (simp add: subscribeToMessages_def)
next
  assume m: "mset cs' = mset cs"
  then have e: "cs' = [] \<longleftrightarrow> cs = []" by (metis mset_zero_iff)
  have "mset (map child_message cs') = mset (map child_message cs)"
    using arg_cong [OF m, of "image_mset child_message"] by simp
  then show "map timestamp (subscribeToMessages cs') = map timestamp (subscribeToMessages cs)"
    using e by (simp add: subscribeToMessages_def sort_key_perm_keys)
next
  assume "mset cs' = mset cs \<and> distinct (map (timestamp \<circ> snd) cs')"
  then have m: "mset cs' = mset cs" and d: "distinct (map (timestamp \<circ> snd) cs')" by simp_all
  have e: "cs' = [] \<longleftrightarrow> cs = []" using m by (metis mset_zero_iff)
  have mm: "mset (map child_message cs') = mset (map child_message cs)"
    using arg_cong [OF m, of "image_mset child_message"] by simp
  have ts: "map timestamp (map child_message cs') = map (timestamp \<circ> snd) cs'"
    by (simp add: child_message_def)
  have "distinct (map timestamp (map child_message cs'))"
    using d by (simp only: ts)
  with mm have "sort_key timestamp (map child_message cs') = sort_key timestamp (map child_message cs)"
    by (rule sort_key_perm_distinct)
  then show "subscribeToMessages cs' = subscribeToMessages cs"
    using e by (simp add: subscribeToMessages_def)
next
  assume lt: "timestamp (snd a) < timestamp (snd b)"
  then show "subscribeToMessages [a, b] = [child_message a, child_message b]"
    by (simp add: subscribeToMessages_def child_message_def)
  from lt show "subscribeToMessages [b, a] = [child_message a, child_message b]"
    by (simp add: subscribeToMessages_def child_message_def)
qed


theorem subscribeToMessages_sorted_witness:
  "subscribeToMessages
     [(''-k2'', \<lparr>sender = ''B'', msg_text = ''yo'', timestamp = 105\<rparr>),
      (''-k1'', \<lparr>sender = ''A'', msg_text = ''hi'', timestamp = 100\<rparr>)] =
   [\<lparr>sender = ''A'', msg_text = ''hi'', timestamp = 100, msg_id = ''-k1''\<rparr>,
    \<lparr>sender = ''B'', msg_text = ''yo'', timestamp = 105, msg_id = ''-k2''\<rparr>]"
  using subscribeToMessages_sorted
    [where a = "(''-k1'', \<lparr>sender = ''A'', msg_text = ''hi'', timestamp = 100\<rparr>)"
       and b = "(''-k2'', \<lparr>sender = ''B'', msg_text = ''yo'', timestamp = 105\<rparr>)"]
  by (simp add: child_message_def)

section \<open>Properties of trimming and of \<open>extractVideoId\<close>\<close>

lemma trim_Nil: "trim [] = []"
  by (simp add: trim_def)

lemma trim_blank: "list_all is_ws s \<Longrightarrow> trim s = []"
proof -
  assume "list_all is_ws s"
  then have e: "dropWhile is_ws s = []"
    by (simp add: list_all_iff)
  show ?thesis
    unfolding trim_def by (simp only: e rev.simps dropWhile.simps)
qed

lemma trim_blank_iff: "trim s = [] \<longleftrightarrow> list_all is_ws s"
proof
  assume "trim s = []"
  then have all: "\<forall>x\<in>set (dropWhile is_ws s). is_ws x"
    by (simp add: trim_def)
  have "dropWhile is_ws s = []"
  proof (rule ccontr)
    assume ne: "dropWhile is_ws s \<noteq> []"
    then have "\<not> is_ws (hd (dropWhile is_ws s))"
      by (rule hd_dropWhile)
    moreover have "hd (dropWhile is_ws s) \<in> set (dropWhile is_ws s)"
      using ne by simp
    ultimately show False using all by blast
  qed
  then show "list_all is_ws s"
    by (simp add: list_all_iff)
qed (rule trim_blank)

lemma trim_unchanged:
  assumes "s \<noteq> []" "\<not> is_ws (hd s)" "\<not> is_ws (last s)"
  shows "trim s = s"
proof -
  have "dropWhile is_ws s = s"
    using assms by (cases s) simp_all
  moreover have "dropWhile is_ws (rev s) = rev s"
    using assms by (cases "rev s") (simp_all add: last_rev [symmetric] hd_rev)
  ultimately show ?thesis
    by (simp add: trim_def)
qed

lemma idchar_not_ws: "idchar c \<Longrightarrow> \<not> is_ws c"
  by (auto simp: idchar_def is_ws_def Let_def)

text \<open>
  Claim C9. An input that, once trimmed, is eleven characters of \<open>[A-Za-z0-9_-]\<close> is
  returned trimmed and otherwise unchanged, whatever the URL parser does; a canonical id
  is returned as it is; \<open>null\<close>, the empty string and an input of white space only give
  \<open>null\<close>.
\<close>

theorem extractVideoId_canonical:
  "(length (trim s) = 11 \<and> list_all idchar (trim s) \<longrightarrow>
      extractVideoId parseURL (Some s) = Some (trim s))
   \<and> (length s = 11 \<and> list_all idchar s \<longrightarrow> extractVideoId parseURL (Some s) = Some s)
   \<and> extractVideoId parseURL None = None
   \<and> (list_all is_ws s \<longrightarrow> extractVideoId parseURL (Some s) = None)"
proof (intro conjI impI)
  assume a: "length (trim s) = 11 \<and> list_all idchar (trim s)"
  then have "trim s \<noteq> []" "s \<noteq> []"
    by (auto simp: trim_Nil)
  with a show "extractVideoId parseURL (Some s) = Some (trim s)"
    by (simp add: extractVideoId_def)
next
  assume a: "length s = 11 \<and> list_all idchar s"
  then have ne: "s \<noteq> []" by auto
  with a have "idchar (hd s)" "idchar (last s)"
    by (simp_all add: list_all_iff)
  with ne have t: "trim s = s"
    by (intro trim_unchanged idchar_not_ws)
  with a ne show "extractVideoId parseURL (Some s) = Some s"
    by (simp add: extractVideoId_def)
next
  show "extractVideoId parseURL None = None"
    by (simp add: extractVideoId_def)
next
  assume "list_all is_ws s"
  then have "trim s = []" by (rule trim_blank)
  then show "extractVideoId parseURL (Some s) = None"
    by (simp add: extractVideoId_def)
qed

theorem extractVideoId_canonical_witness:
  "extractVideoId not_a_url (Some ''  dQw4w9WgXcQ '') = Some ''dQw4w9WgXcQ''
   \<and> extractVideoId not_a_url (Some ''abc12345678'') = Some ''abc12345678''
   \<and> extractVideoId not_a_url (Some '' '') = None"
  using extractVideoId_canonical [of "''  dQw4w9WgXcQ ''" not_a_url]
    extractVideoId_canonical [of "''abc12345678''" not_a_url]
    extractVideoId_canonical [of "'' ''" not_a_url]
  by (simp add: trim_def is_ws_def idchar_def)

section \<open>Sending chat messages\<close>

text \<open>
  Claim C8, as stated, fails: a text of 501 characters is pushed to the store. Neither
  \<open>sendChatMessage\<close> nor \<open>sendMessage\<close> looks at the length of the text.
\<close>

theorem sendChatMessage_long_counterexample:
  "500 < length (replicate 501 CHR ''a'') \<and>
   snd (sendChatMessage (replicate 501 CHR ''a'') True 1000 ''-k1''
          (useRoomSync ''ROOM01'' ''Alice'' None, empty_store)) ''ROOM01''
   = [(''-k1'', \<lparr>sender = ''Alice'', msg_text = replicate 501 CHR ''a'', timestamp = 1000\<rparr>)]"
proof -
  have "trim (replicate 501 CHR ''a'') = replicate 501 CHR ''a''"
    by (rule trim_unchanged) (simp_all add: is_ws_def last_replicate)
  then show ?thesis
    by (simp add: sendChatMessage_def sendMessage_def useRoomSync_def empty_store_def)
qed

text \<open>
  Claim C8, amended. \<open>sendChatMessage\<close> pushes nothing for an empty text or a text of
  white space only. For every other text, of any length, in a room with a user name, it
  pushes the trimmed text, which is not empty. \<open>sendMessage\<close> itself pushes whatever
  text it is given.
\<close>

theorem sendChatMessage_validation:
  "(list_all is_ws txt \<longrightarrow> sendChatMessage txt accepted now key (s, st) = (s, st))
   \<and> (\<not> list_all is_ws txt \<and> roomId s \<noteq> [] \<and> userName s \<noteq> [] \<longrightarrow>
        trim txt \<noteq> [] \<and>
        sendChatMessage txt True now key (s, st) =
          (s, sendMessage (roomId s) (userName s) (trim txt) now key st))
   \<and> sendMessage rid sndr t now key st rid =
        st rid @ [(key, \<lparr>sender = sndr, msg_text = t, timestamp = now\<rparr>)]"
  by (simp add: sendChatMessage_def sendMessage_def trim_blank_iff)

theorem sendChatMessage_validation_witness:
  "sendChatMessage ''   '' True 1000 ''-k1'' (useRoomSync ''ROOM01'' ''Alice'' None, empty_store)
     = (useRoomSync ''ROOM01'' ''Alice'' None, empty_store)
   \<and> sendChatMessage '' hi  '' True 1000 ''-k1'' (useRoomSync ''ROOM01'' ''Alice'' None, empty_store)
     = (useRoomSync ''ROOM01'' ''Alice'' None,
        sendMessage ''ROOM01'' ''Alice'' ''hi'' 1000 ''-k1'' empty_store)"
  using sendChatMessage_validation [of "''   ''" True 1000 "''-k1''" "useRoomSync ''ROOM01'' ''Alice'' None" empty_store]
    sendChatMessage_validation [of "'' hi  ''" True 1000 "''-k1''" "useRoomSync ''ROOM01'' ''Alice'' None" empty_store]
  by (simp add: is_ws_def trim_def useRoomSync_def)

section \<open>The room subscription\<close>

lemmas callback_defs =
  roomCallback_def own_update_def remote_update_def reconcile_def issue_def setTimeout_def
  merge_data_def or_zero_def SEEK_THRESHOLD_def Let_def

lemmas report_defs =
  updateState_def updateState_begin_def updateState_resume_def sendPlay_def sendPause_def
  sendSeek_def loadVideo_def nullish_def Let_def

lemma roomCallback_lastProcessedUpdate:
  "lastProcessedUpdate (roomCallback d s) =
     (if lastProcessedUpdate s < lastUpdated d then lastUpdated d else lastProcessedUpdate s)"
  by (simp add: callback_defs split: option.split)

lemma fire_lastProcessedUpdate: "lastProcessedUpdate (fire a s) = lastProcessedUpdate s"
  by (cases a) (simp_all add: issue_def)

lemma foldl_fire_lastProcessedUpdate:
  "lastProcessedUpdate (foldl (\<lambda>s' x. fire (snd x) s') s xs) = lastProcessedUpdate s"
  by (induction xs arbitrary: s) (simp_all add: fire_lastProcessedUpdate)

lemma advance_lastProcessedUpdate: "lastProcessedUpdate (advance t s) = lastProcessedUpdate s"
  by (simp add: advance_def foldl_fire_lastProcessedUpdate)

lemma updateState_lastProcessedUpdate:
  "lastProcessedUpdate (updateState rs n outcome s) = lastProcessedUpdate s"
  by (simp add: report_defs split: write_outcome.split)

lemma handleStateChange_lastProcessedUpdate:
  "lastProcessedUpdate (handleStateChange rs st t outcome s) = lastProcessedUpdate s"
  by (simp add: handleStateChange_def sendPlay_def sendPause_def sendSeek_def Let_def
      updateState_lastProcessedUpdate)

lemma step_lastProcessedUpdate:
  "lastProcessedUpdate s \<le> lastProcessedUpdate (step e s)"
  by (cases e)
    (simp_all add: roomCallback_lastProcessedUpdate advance_lastProcessedUpdate
      updateState_lastProcessedUpdate handleStateChange_lastProcessedUpdate)

lemma run_lastProcessedUpdate:
  "lastProcessedUpdate s \<le> lastProcessedUpdate (run evs s)"
proof (induction evs arbitrary: s)
  case Nil
  show ?case by (simp add: run_def)
next
  case (Cons e evs)
  have "lastProcessedUpdate s \<le> lastProcessedUpdate (step e s)"
    by (rule step_lastProcessedUpdate)
  also have "\<dots> \<le> lastProcessedUpdate (run evs (step e s))"
    by (rule Cons.IH)
  finally show ?case by (simp add: run_def)
qed

lemma run_append: "run (evs @ later) s = run later (run evs s)"
  by (simp add: run_def)

text \<open>
  Claim C10. \<open>lastProcessedUpdate\<close> is 0 when the room view is mounted. The subscription
  callback assigns it \<open>data.lastUpdated\<close> exactly when that is greater than the present
  value, in the branch of own updates as in the branch of remote updates, and leaves it
  alone otherwise; timers, local reports and player events never touch it. So it never
  decreases along a run, and whenever it grows the event was a room update with the new
  value as its time stamp.
\<close>

theorem lastProcessedUpdate_monotone:
  "lastProcessedUpdate (useRoomSync rid name pl) = 0
   \<and> lastProcessedUpdate (roomCallback d s) =
       (if lastProcessedUpdate s < lastUpdated d then lastUpdated d else lastProcessedUpdate s)
   \<and> lastProcessedUpdate s \<le> lastProcessedUpdate (step e s)
   \<and> (\<not> lastProcessedUpdate s < lastProcessedUpdate (step e s) \<or>
        (\<exists>d. e = RoomData d \<and> lastProcessedUpdate s < lastUpdated d \<and>
             lastProcessedUpdate (step e s) = lastUpdated d))
   \<and> lastProcessedUpdate (run evs s) \<le> lastProcessedUpdate (run (evs @ later) s)"
proof (intro conjI)
  show "lastProcessedUpdate (useRoomSync rid name pl) = 0"
    by (simp add: useRoomSync_def)
  show "lastProcessedUpdate (roomCallback d s) =
       (if lastProcessedUpdate s < lastUpdated d then lastUpdated d else lastProcessedUpdate s)"
    by (rule roomCallback_lastProcessedUpdate)
  show "lastProcessedUpdate s \<le> lastProcessedUpdate (step e s)"
    by (rule step_lastProcessedUpdate)
  show "\<not> lastProcessedUpdate s < lastProcessedUpdate (step e s) \<or>
        (\<exists>d. e = RoomData d \<and> lastProcessedUpdate s < lastUpdated d \<and>
             lastProcessedUpdate (step e s) = lastUpdated d)"
    by (cases e)
      (simp_all add: roomCallback_lastProcessedUpdate advance_lastProcessedUpdate
        updateState_lastProcessedUpdate handleStateChange_lastProcessedUpdate)
  show "lastProcessedUpdate (run evs s) \<le> lastProcessedUpdate (run (evs @ later) s)"
    by (simp add: run_append run_lastProcessedUpdate)
qed

theorem lastProcessedUpdate_monotone_witness:
  "lastProcessedUpdate (run [RoomData (by_alice [] False 0 100)] bob) = 100
   \<and> lastProcessedUpdate
        (run ([RoomData (by_alice [] False 0 100)] @ [RoomData (by_alice [] True 5 90)]) bob) = 100"
  using lastProcessedUpdate_monotone
      [of "''ROOM01''" "''Bob''" "Some \<lparr>getCurrentTime = 41.995, getPlayerState = 1\<rparr>"
        "by_alice [] False 0 100" bob "RoomData (by_alice [] False 0 100)" "[]" "[]"]
    lastProcessedUpdate_monotone
      [of "''ROOM01''" "''Bob''" "Some \<lparr>getCurrentTime = 41.995, getPlayerState = 1\<rparr>"
        "by_alice [] True 5 90" "roomCallback (by_alice [] False 0 100) bob" "RoomData (by_alice [] True 5 90)" "[]" "[]"]
  by (simp add: run_def by_alice_def bob_def)

section \<open>Suppression of outgoing updates\<close>










section \<open>Stale updates\<close>

lemma roomCallback_stale:
  "lastUpdated d \<le> lastProcessedUpdate s \<Longrightarrow>
   roomCallback d s =
     s\<lparr>isConnected := True, isLoading := False, error := None,
       currentVideoIdRef :=
         (if currentVideoIdRef s = [] \<and> videoId d \<noteq> [] then videoId d
          else currentVideoIdRef s)\<rparr>"
  by (simp add: roomCallback_def Let_def)

lemma roomCallback_after:
  "lastUpdated d' \<le> lastUpdated d \<Longrightarrow>
   lastUpdated d' \<le> lastProcessedUpdate (roomCallback d s)"
  by (simp add: roomCallback_lastProcessedUpdate)

text \<open>
  Claim C2, as stated, fails: a stale update leaves the adapter alone, but not the whole
  state of the engine. With clocks that disagree, Alice's load of a video can carry the time
  stamp 90 when Bob has already processed the state of the new room with time stamp 100;
  Bob discards it as stale, yet his \<open>currentVideoIdRef\<close>, empty until then, now names
  the video.
\<close>

theorem stale_update_counterexample:
  "lastUpdated (by_alice ''abc12345678'' True 0 90)
     \<le> lastProcessedUpdate (roomCallback (by_alice [] False 0 100) bob)
   \<and> currentVideoIdRef (roomCallback (by_alice [] False 0 100) bob) = []
   \<and> currentVideoIdRef (roomCallback (by_alice ''abc12345678'' True 0 90)
        (roomCallback (by_alice [] False 0 100) bob)) = ''abc12345678''"
  by (simp add: callback_defs bob_def by_alice_def useRoomSync_def)

text \<open>
  Claim C2, amended. An update whose time stamp is not greater than
  \<open>lastProcessedUpdate\<close> issues no command to the player, starts no timer, publishes
  nothing and leaves \<open>lastProcessedUpdate\<close>, the suppression flag and the local
  projection as they are. It only marks the client as connected (no longer loading, error
  cleared) and, when \<open>currentVideoIdRef\<close> is still empty and the update names a video,
  sets \<open>currentVideoIdRef\<close> to that video. So the same state delivered twice, or an
  update with time stamp 90 after one with time stamp 100, issues no command and starts no
  timer the second time.
\<close>

theorem stale_update_discarded:
  "(lastUpdated d \<le> lastProcessedUpdate s \<longrightarrow>
      roomCallback d s =
        s\<lparr>isConnected := True, isLoading := False, error := None,
          currentVideoIdRef :=
            (if currentVideoIdRef s = [] \<and> videoId d \<noteq> [] then videoId d
             else currentVideoIdRef s)\<rparr>
      \<and> new_commands s (roomCallback d s) = []
      \<and> issued (roomCallback d s) = issued s
      \<and> timers (roomCallback d s) = timers s
      \<and> published (roomCallback d s) = published s
      \<and> lastProcessedUpdate (roomCallback d s) = lastProcessedUpdate s
      \<and> isRemoteUpdate (roomCallback d s) = isRemoteUpdate s
      \<and> roomState (roomCallback d s) = roomState s)
   \<and> (lastUpdated d' \<le> lastUpdated d \<longrightarrow>
        issued (roomCallback d' (roomCallback d s)) = issued (roomCallback d s) \<and>
        timers (roomCallback d' (roomCallback d s)) = timers (roomCallback d s))
   \<and> issued (roomCallback d (roomCallback d s)) = issued (roomCallback d s)
   \<and> timers (roomCallback d (roomCallback d s)) = timers (roomCallback d s)"
proof (intro conjI impI)
  assume a: "lastUpdated d \<le> lastProcessedUpdate s"
  then show e: "roomCallback d s =
        s\<lparr>isConnected := True, isLoading := False, error := None,
          currentVideoIdRef :=
            (if currentVideoIdRef s = [] \<and> videoId d \<noteq> [] then videoId d
             else currentVideoIdRef s)\<rparr>"
    by (rule roomCallback_stale)
  show "new_commands s (roomCallback d s) = []" "issued (roomCallback d s) = issued s"
    "timers (roomCallback d s) = timers s" "published (roomCallback d s) = published s"
    "lastProcessedUpdate (roomCallback d s) = lastProcessedUpdate s"
    "isRemoteUpdate (roomCallback d s) = isRemoteUpdate s"
    "roomState (roomCallback d s) = roomState s"
    by (simp_all add: e new_commands_def)
next
  assume "lastUpdated d' \<le> lastUpdated d"
  then have "lastUpdated d' \<le> lastProcessedUpdate (roomCallback d s)"
    by (rule roomCallback_after)
  then have e: "roomCallback d' (roomCallback d s) =
      (roomCallback d s)\<lparr>isConnected := True, isLoading := False, error := None,
          currentVideoIdRef :=
            (if currentVideoIdRef (roomCallback d s) = [] \<and> videoId d' \<noteq> [] then videoId d'
             else currentVideoIdRef (roomCallback d s))\<rparr>"
    by (rule roomCallback_stale)
  show "issued (roomCallback d' (roomCallback d s)) = issued (roomCallback d s)"
    by (subst e) simp
  show "timers (roomCallback d' (roomCallback d s)) = timers (roomCallback d s)"
    by (subst e) simp
next
  have "lastUpdated d \<le> lastProcessedUpdate (roomCallback d s)"
    by (rule roomCallback_after) simp
  then have e: "roomCallback d (roomCallback d s) =
      (roomCallback d s)\<lparr>isConnected := True, isLoading := False, error := None,
          currentVideoIdRef :=
            (if currentVideoIdRef (roomCallback d s) = [] \<and> videoId d \<noteq> [] then videoId d
             else currentVideoIdRef (roomCallback d s))\<rparr>"
    by (rule roomCallback_stale)
  show "issued (roomCallback d (roomCallback d s)) = issued (roomCallback d s)"
    by (subst e) simp
  show "timers (roomCallback d (roomCallback d s)) = timers (roomCallback d s)"
    by (subst e) simp
qed

theorem stale_update_discarded_witness:
  "issued (roomCallback (by_alice ''abc12345678'' True 0 90)
            (roomCallback (by_alice ''abc12345678'' False 50 100) bob))
     = [SeekTo 50 True, PauseVideo]
   \<and> roomState (roomCallback (by_alice ''abc12345678'' True 0 90)
            (roomCallback (by_alice ''abc12345678'' False 50 100) bob))
     = by_alice ''abc12345678'' False 50 100"
proof -
  have s: "roomCallback (by_alice ''abc12345678'' False 50 100) bob =
    bob\<lparr>isConnected := True, isLoading := False, isRemoteUpdate := True,
        roomState := by_alice ''abc12345678'' False 50 100,
        currentVideoIdRef := ''abc12345678'', issued := [SeekTo 50 True, PauseVideo],
        lastProcessedUpdate := 100, timers := [(1000, ClearRemoteUpdate)]\<rparr>"
    by (simp add: callback_defs bob_def by_alice_def useRoomSync_def)
  show ?thesis
    using stale_update_discarded [of "by_alice ''abc12345678'' True 0 90"
        "roomCallback (by_alice ''abc12345678'' False 50 100) bob"]
    by (simp add: s) (simp add: by_alice_def)
qed

section \<open>Remote updates and the player\<close>

lemma new_commands_append: "issued s' = issued s @ cs \<Longrightarrow> new_commands s s' = cs"
  by (simp add: new_commands_def)

lemma reconcile_issued:
  "issued (reconcile p d s) =
     issued s
     @ (if \<bar>getCurrentTime p - currentTime d\<bar> > 2 then [SeekTo (currentTime d) True] else [])
     @ (if isPlaying d \<and> getPlayerState p \<noteq> 1 then [PlayVideo]
        else if \<not> isPlaying d \<and> getPlayerState p = 1 then [PauseVideo] else [])"
  by (simp add: reconcile_def issue_def or_zero_def SEEK_THRESHOLD_def Let_def)

lemma roomCallback_same_media:
  assumes "playerRef s = Some p" "lastProcessedUpdate s < lastUpdated d"
    "updatedBy d \<noteq> userName s"
    "videoId d = [] \<or> videoId d = currentVideoIdRef s \<or> currentVideoIdRef s = []"
  shows "issued (roomCallback d s) = issued (reconcile p d s)"
    and "timers (roomCallback d s) = timers s @ [(clock s + 1000, ClearRemoteUpdate)]"
  using assms by (auto simp: callback_defs)



section \<open>Updates that change the video\<close>

lemma roomCallback_new_media:
  assumes "playerRef s = Some p" "lastProcessedUpdate s < lastUpdated d"
    "updatedBy d \<noteq> userName s"
    "videoId d \<noteq> []" "currentVideoIdRef s \<noteq> []" "videoId d \<noteq> currentVideoIdRef s"
  shows "issued (roomCallback d s) = issued s @ [LoadVideoById (videoId d) (currentTime d)]"
    and "currentVideoIdRef (roomCallback d s) = videoId d"
    and "timers (roomCallback d s) =
           timers s @ (if isPlaying d then [] else [(clock s + 500, PauseCaptured)])
           @ [(clock s + 1000, ClearRemoteUpdate)]"
    and "clock (roomCallback d s) = clock s"
  using assms by (auto simp: callback_defs)

lemma roomCallback_no_player:
  assumes "playerRef s = None" "lastProcessedUpdate s < lastUpdated d"
    "updatedBy d \<noteq> userName s"
  shows "issued (roomCallback d s) = issued s"
    and "timers (roomCallback d s) = timers s @ [(clock s + 1000, ClearRemoteUpdate)]"
  using assms by (auto simp: callback_defs)

lemma advance_pause_due:
  assumes "timers s = [(clock s + 500, PauseCaptured), (clock s + 1000, ClearRemoteUpdate)]"
  shows "issued (advance (clock s + 500) s) = issued s @ [PauseVideo]"
  using assms by (simp add: advance_def due_def issue_def)

text \<open>
  Claim C4, as stated, fails. Bob's client knows no video yet and gets Alice's update
  for a video: the id of the update differs from the known one, but the callback first
  takes the id as known and then runs the same-media branch, so a seek is sent and no
  load. Later an update without a video id, again different from the known id, is
  reconciled by seek and pause.
\<close>

theorem media_change_counterexample:
  "videoId (by_alice ''abc12345678'' True 0 100) \<noteq> currentVideoIdRef bob
   \<and> new_commands bob (roomCallback (by_alice ''abc12345678'' True 0 100) bob) = [SeekTo 0 True]
   \<and> videoId (by_alice [] False 50 200)
        \<noteq> currentVideoIdRef (roomCallback (by_alice ''abc12345678'' True 0 100) bob)
   \<and> new_commands (roomCallback (by_alice ''abc12345678'' True 0 100) bob)
        (roomCallback (by_alice [] False 50 200)
          (roomCallback (by_alice ''abc12345678'' True 0 100) bob))
      = [SeekTo 50 True, PauseVideo]"
  by (simp add: callback_defs new_commands_def bob_def by_alice_def useRoomSync_def)

text \<open>
  Claim C4, amended. For an update of another user that passes the staleness test and
  carries a non-empty video id different from a non-empty \<open>currentVideoIdRef\<close>, with a
  player present: the only command sent is \<open>loadVideoById(videoId, currentTime)\<close>, with no
  seek and no play or pause reconciliation; \<open>currentVideoIdRef\<close> becomes that id; and when
  the update is not playing, a \<open>pauseVideo\<close> is scheduled 500 ms later (and is sent then),
  before the timer that resets the flag. When \<open>currentVideoIdRef\<close> is empty or the update
  names no video, the same-media reconciliation runs instead of a load; without a player no
  command is sent.
\<close>

theorem media_change_loads:
  "(playerRef s = Some p \<and> lastProcessedUpdate s < lastUpdated d \<and>
    updatedBy d \<noteq> userName s \<and>
    videoId d \<noteq> [] \<and> currentVideoIdRef s \<noteq> [] \<and> videoId d \<noteq> currentVideoIdRef s \<longrightarrow>
      new_commands s (roomCallback d s) = [LoadVideoById (videoId d) (currentTime d)]
      \<and> currentVideoIdRef (roomCallback d s) = videoId d
      \<and> timers (roomCallback d s) =
           timers s @ (if isPlaying d then [] else [(clock s + 500, PauseCaptured)])
           @ [(clock s + 1000, ClearRemoteUpdate)]
      \<and> (timers s = [] \<and> \<not> isPlaying d \<longrightarrow>
           new_commands s (advance (clock s + 500) (roomCallback d s)) =
             [LoadVideoById (videoId d) (currentTime d), PauseVideo]))
   \<and> (playerRef s = Some p \<and> lastProcessedUpdate s < lastUpdated d \<and>
       updatedBy d \<noteq> userName s \<and> (videoId d = [] \<or> currentVideoIdRef s = []) \<longrightarrow>
        new_commands s (roomCallback d s) =
          (if \<bar>getCurrentTime p - currentTime d\<bar> > 2 then [SeekTo (currentTime d) True] else [])
          @ (if isPlaying d \<and> getPlayerState p \<noteq> 1 then [PlayVideo]
             else if \<not> isPlaying d \<and> getPlayerState p = 1 then [PauseVideo] else []))
   \<and> (playerRef s = None \<and> lastProcessedUpdate s < lastUpdated d \<and>
       updatedBy d \<noteq> userName s \<longrightarrow>
        new_commands s (roomCallback d s) = [])"
proof (intro conjI impI)
  assume a: "playerRef s = Some p \<and> lastProcessedUpdate s < lastUpdated d \<and>
    updatedBy d \<noteq> userName s \<and>
    videoId d \<noteq> [] \<and> currentVideoIdRef s \<noteq> [] \<and> videoId d \<noteq> currentVideoIdRef s"
  then have i: "issued (roomCallback d s) = issued s @ [LoadVideoById (videoId d) (currentTime d)]"
    by (intro roomCallback_new_media) simp_all
  then show "new_commands s (roomCallback d s) = [LoadVideoById (videoId d) (currentTime d)]"
    by (rule new_commands_append)
  from a show "currentVideoIdRef (roomCallback d s) = videoId d"
    by (intro roomCallback_new_media) simp_all
  from a show t: "timers (roomCallback d s) =
           timers s @ (if isPlaying d then [] else [(clock s + 500, PauseCaptured)])
           @ [(clock s + 1000, ClearRemoteUpdate)]"
    by (intro roomCallback_new_media) simp_all
  from a have c: "clock (roomCallback d s) = clock s"
    by (intro roomCallback_new_media) simp_all
  assume "timers s = [] \<and> \<not> isPlaying d"
  with t c have "timers (roomCallback d s) =
      [(clock (roomCallback d s) + 500, PauseCaptured),
       (clock (roomCallback d s) + 1000, ClearRemoteUpdate)]"
    by simp
  then have "issued (advance (clock (roomCallback d s) + 500) (roomCallback d s)) =
      issued (roomCallback d s) @ [PauseVideo]"
    by (rule advance_pause_due)
  with i c have "issued (advance (clock s + 500) (roomCallback d s)) =
      issued s @ [LoadVideoById (videoId d) (currentTime d), PauseVideo]"
    by simp
  then show "new_commands s (advance (clock s + 500) (roomCallback d s)) =
             [LoadVideoById (videoId d) (currentTime d), PauseVideo]"
    by (rule new_commands_append)
next
  assume a: "playerRef s = Some p \<and> lastProcessedUpdate s < lastUpdated d \<and>
       updatedBy d \<noteq> userName s \<and> (videoId d = [] \<or> currentVideoIdRef s = [])"
  then have "issued (roomCallback d s) = issued (reconcile p d s)"
    by (intro roomCallback_same_media) auto
  then show "new_commands s (roomCallback d s) =
          (if \<bar>getCurrentTime p - currentTime d\<bar> > 2 then [SeekTo (currentTime d) True] else [])
          @ (if isPlaying d \<and> getPlayerState p \<noteq> 1 then [PlayVideo]
             else if \<not> isPlaying d \<and> getPlayerState p = 1 then [PauseVideo] else [])"
    by (intro new_commands_append) (simp only: reconcile_issued)
next
  assume "playerRef s = None \<and> lastProcessedUpdate s < lastUpdated d \<and>
       updatedBy d \<noteq> userName s"
  then have "issued (roomCallback d s) = issued s"
    by (intro roomCallback_no_player) simp_all
  then show "new_commands s (roomCallback d s) = []"
    by (simp add: new_commands_def)
qed

theorem media_change_loads_witness:
  "new_commands (bob\<lparr>currentVideoIdRef := ''abc12345678''\<rparr>)
     (advance 500 (roomCallback (by_alice ''xyz12345678'' False 30 100)
        (bob\<lparr>currentVideoIdRef := ''abc12345678''\<rparr>)))
     = [LoadVideoById ''xyz12345678'' 30, PauseVideo]
   \<and> new_commands bob (roomCallback (by_alice ''xyz12345678'' False 30 100) bob)
     = [SeekTo 30 True, PauseVideo]
   \<and> new_commands (useRoomSync ''ROOM01'' ''Bob'' None)
       (roomCallback (by_alice ''xyz12345678'' False 30 100) (useRoomSync ''ROOM01'' ''Bob'' None))
     = []"
proof -
  have h: "playerRef bob = Some \<lparr>getCurrentTime = 41.995, getPlayerState = 1\<rparr>"
    "lastProcessedUpdate bob = 0" "userName bob = ''Bob''" "currentVideoIdRef bob = []"
    "timers bob = []" "clock bob = 0"
    by (simp_all add: bob_def useRoomSync_def)
  have g: "playerRef (useRoomSync ''ROOM01'' ''Bob'' None) = None"
    "lastProcessedUpdate (useRoomSync ''ROOM01'' ''Bob'' None) = 0"
    "userName (useRoomSync ''ROOM01'' ''Bob'' None) = ''Bob''"
    by (simp_all add: useRoomSync_def)
  show ?thesis
    using media_change_loads [of "bob\<lparr>currentVideoIdRef := ''abc12345678''\<rparr>"
        "\<lparr>getCurrentTime = 41.995, getPlayerState = 1\<rparr>" "by_alice ''xyz12345678'' False 30 100"]
      media_change_loads [of bob
        "\<lparr>getCurrentTime = 41.995, getPlayerState = 1\<rparr>" "by_alice ''xyz12345678'' False 30 100"]
      media_change_loads [of "useRoomSync ''ROOM01'' ''Bob'' None"
        "\<lparr>getCurrentTime = 41.995, getPlayerState = 1\<rparr>" "by_alice ''xyz12345678'' False 30 100"]
    by (simp add: h g by_alice_def)
qed

section \<open>The local projection and the store write\<close>

lemma updateState_begin_roomState: "roomState (fst (updateState_begin rs n s)) = roomState s"
  by (simp add: updateState_begin_def Let_def)

lemma updateState_rejected_roomState: "roomState (updateState rs n Rejected s) = roomState s"
  by (simp add: report_defs)

text \<open>
  Claim C5 against the code. \<open>updateState\<close> awaits the write before it touches
  \<open>roomState\<close>: up to the \<open>await\<close> the local projection is the old one for every
  input, and when the write is rejected it stays the old one, with the error message set.
  Bob presses play at 12.5 seconds, nothing being suppressed, and the write fails: the
  state was sent to the store, but his projection still says paused.
\<close>

theorem updateState_not_optimistic:
  "roomState (fst (updateState_begin rs n s)) = roomState s
   \<and> roomState (updateState rs n Rejected s) = roomState s
   \<and> isRemoteUpdate bob = False
   \<and> published (sendPlay (roomState bob) 12.5 Rejected bob)
       = [(''ROOM01'', \<lparr>videoId = [], isPlaying = True, currentTime = 12.5\<rparr>, ''Bob'')]
   \<and> isPlaying (roomState (sendPlay (roomState bob) 12.5 Rejected bob)) = False
   \<and> currentTime (roomState (sendPlay (roomState bob) 12.5 Rejected bob)) = 0
   \<and> error (sendPlay (roomState bob) 12.5 Rejected bob) = Some ''Failed to sync video state''"
  by (simp add: updateState_begin_roomState updateState_rejected_roomState)
    (simp add: report_defs bob_def useRoomSync_def)

section \<open>The suppression window\<close>




















end
